theory Spec2Isabelle
  imports Complex_Main
begin

section \<open>JavaScript numbers\<close>

text \<open>
  The calculator of \<^verbatim>\<open>script.js\<close> keeps its operands as strings and computes on
  JavaScript numbers, which are IEEE 754 binary64 values. A number is modelled by its
  class: not-a-number, an infinity with its sign bit, or a finite value
  \<open>Finite s m e\<close> of sign bit \<open>s\<close> (\<open>True\<close> for negative), integer significand \<open>m\<close> and
  exponent \<open>e\<close>, whose magnitude is \<open>m * 2 ^ e\<close>. As in the binary64 format a finite value
  has one representation: \<open>2 ^ 52 \<le> m < 2 ^ 53\<close> and \<open>- 1074 \<le> e \<le> 971\<close> for a normal value,
  \<open>m < 2 ^ 52\<close> and \<open>e = - 1074\<close> for a subnormal value or a zero.
\<close>

datatype number = NaN | Infty bool | Finite bool int int

text \<open>The number of digits of a positive integer in base \<open>b\<close> (0 has none).\<close>

function width :: "int \<Rightarrow> int \<Rightarrow> nat" where
  "width b n = (if n \<le> 0 \<or> b < 2 then 0 else width b (n div b) + 1)"
  by pat_completeness auto
termination
proof (relation "measure (\<lambda>(b, n). nat n)")
  show "wf (measure (\<lambda>(b, n). nat n))" by simp
next
  fix b n :: int
  assume "\<not> (n \<le> 0 \<or> b < 2)"
  then have "0 < n" and "1 < b" by simp_all
  then have "n div b < n" by (rule int_div_less_self)
  with \<open>0 < n\<close> show "((b, n div b), (b, n)) \<in> measure (\<lambda>(b, n). nat n)" by simp
qed

declare width.simps [simp del]

text \<open>
  Exact values are fractions \<open>p / q\<close> of integers, \<open>p \<ge> 0\<close> and \<open>q > 0\<close>. A power
  \<open>b ^ nat e\<close> is 1 for a negative \<open>e\<close>, so that \<open>p * b ^ nat e\<close> over \<open>q * b ^ nat (- e)\<close> is
  \<open>p / q\<close> times \<open>b\<close> to the power \<open>e\<close> for an \<open>e\<close> of either sign.

  \<open>floor_log b p q\<close> is the integer \<open>w\<close> with \<open>b ^ w \<le> p / q < b ^ (w + 1)\<close>, for \<open>p > 0\<close>: the
  widths of \<open>p\<close> and \<open>q\<close> place \<open>w\<close> within one of their difference, and one comparison
  decides.
\<close>

definition floor_log :: "int \<Rightarrow> int \<Rightarrow> int \<Rightarrow> int" where
  "floor_log b p q =
     (let w = int (width b p) - int (width b q)
      in if q * b ^ nat w \<le> p * b ^ nat (- w) then w else w - 1)"

text \<open>The integer nearest to \<open>p / q\<close>, a tie going to the even neighbour.\<close>

definition round_ties_even :: "int \<Rightarrow> int \<Rightarrow> int" where
  "round_ties_even p q =
     (let f = p div q; r = p mod q
      in if 2 * r < q then f
         else if q < 2 * r then f + 1
         else if even f then f else f + 1)"

text \<open>
  \<open>to_double s p q\<close> is the binary64 value nearest to the exact magnitude \<open>p / q\<close>, with sign
  bit \<open>s\<close> (round to nearest, ties to even): the exponent \<open>e\<close> leaves 53 significant bits
  but is no lower than \<open>- 1074\<close>; a significand rounded up to \<open>2 ^ 53\<close> is renormalised;
  an exponent above 971 is an overflow to infinity.
\<close>

definition to_double :: "bool \<Rightarrow> int \<Rightarrow> int \<Rightarrow> number" where
  "to_double s p q =
     (if p = 0 then Finite s 0 (- 1074)
      else
        (let e = max (floor_log 2 p q - 52) (- 1074);
             m = round_ties_even (p * 2 ^ nat (- e)) (q * 2 ^ nat e);
             m1 = (if m = 2 ^ 53 then 2 ^ 52 else m);
             e1 = (if m = 2 ^ 53 then e + 1 else e)
         in if 971 < e1 then Infty s else Finite s m1 e1))"

text \<open>The values nearest to \<open>n * 2 ^ e\<close> and to \<open>n * 10 ^ e\<close>, for an integer \<open>n \<ge> 0\<close>.\<close>

definition of_dyadic :: "bool \<Rightarrow> int \<Rightarrow> int \<Rightarrow> number" where
  "of_dyadic s n e = to_double s (n * 2 ^ nat e) (2 ^ nat (- e))"

definition of_decimal :: "bool \<Rightarrow> int \<Rightarrow> int \<Rightarrow> number" where
  "of_decimal s n e = to_double s (n * 10 ^ nat e) (10 ^ nat (- e))"

definition signed :: "bool \<Rightarrow> int \<Rightarrow> int" where
  "signed s m = (if s then - m else m)"

text \<open>
  The rational number that a finite value stands for (and 0 for the three values that are
  not finite, which no statement below reads).
\<close>

fun value_of :: "number \<Rightarrow> rat" where
  "value_of (Finite s m e) = of_int (signed s m) * 2 ^ nat e / 2 ^ nat (- e)"
| "value_of x = 0"

subsection \<open>Arithmetic\<close>

text \<open>
  The operators \<^verbatim>\<open>+ - * / %\<close> on numbers, as ECMAScript defines them
  (\<^verbatim>\<open>Number::add\<close>, \<^verbatim>\<open>Number::subtract\<close>, \<^verbatim>\<open>Number::multiply\<close>,
  \<^verbatim>\<open>Number::divide\<close>, \<^verbatim>\<open>Number::remainder\<close>): the exact result of the
  finite operands, rounded once; an exact zero sum is positive unless both operands are
  negative; a product or quotient has the exclusive-or of the signs; a remainder is
  that of the truncating division, has the sign of the dividend and is exact.
\<close>

fun js_neg :: "number \<Rightarrow> number" where
  "js_neg NaN = NaN"
| "js_neg (Infty s) = Infty (\<not> s)"
| "js_neg (Finite s m e) = Finite (\<not> s) m e"

fun js_add :: "number \<Rightarrow> number \<Rightarrow> number" where
  "js_add NaN y = NaN"
| "js_add x NaN = NaN"
| "js_add (Infty s) (Infty t) = (if s = t then Infty s else NaN)"
| "js_add (Infty s) (Finite t k f) = Infty s"
| "js_add (Finite s m e) (Infty t) = Infty t"
| "js_add (Finite s m e) (Finite t k f) =
     (let g = min e f;
          v = signed s (m * 2 ^ nat (e - g)) + signed t (k * 2 ^ nat (f - g))
      in if v = 0 then Finite (s \<and> t) 0 (- 1074) else of_dyadic (v < 0) \<bar>v\<bar> g)"

definition js_sub :: "number \<Rightarrow> number \<Rightarrow> number" where
  "js_sub x y = js_add x (js_neg y)"

fun js_mul :: "number \<Rightarrow> number \<Rightarrow> number" where
  "js_mul NaN y = NaN"
| "js_mul x NaN = NaN"
| "js_mul (Infty s) (Infty t) = Infty (s \<noteq> t)"
| "js_mul (Infty s) (Finite t k f) = (if k = 0 then NaN else Infty (s \<noteq> t))"
| "js_mul (Finite s m e) (Infty t) = (if m = 0 then NaN else Infty (s \<noteq> t))"
| "js_mul (Finite s m e) (Finite t k f) = of_dyadic (s \<noteq> t) (m * k) (e + f)"

fun js_div :: "number \<Rightarrow> number \<Rightarrow> number" where
  "js_div NaN y = NaN"
| "js_div x NaN = NaN"
| "js_div (Infty s) (Infty t) = NaN"
| "js_div (Infty s) (Finite t k f) = Infty (s \<noteq> t)"
| "js_div (Finite s m e) (Infty t) = Finite (s \<noteq> t) 0 (- 1074)"
| "js_div (Finite s m e) (Finite t k f) =
     (if k = 0 then (if m = 0 then NaN else Infty (s \<noteq> t))
      else to_double (s \<noteq> t) (m * 2 ^ nat (e - f)) (k * 2 ^ nat (f - e)))"

fun js_rem :: "number \<Rightarrow> number \<Rightarrow> number" where
  "js_rem NaN y = NaN"
| "js_rem x NaN = NaN"
| "js_rem (Infty s) y = NaN"
| "js_rem (Finite s m e) (Infty t) = Finite s m e"
| "js_rem (Finite s m e) (Finite t k f) =
     (if k = 0 then NaN
      else (let g = min e f
            in of_dyadic s ((m * 2 ^ nat (e - g)) mod (k * 2 ^ nat (f - g))) g))"

text \<open>\<^verbatim>\<open>isNaN\<close>, \<^verbatim>\<open>isFinite\<close> and the comparison \<^verbatim>\<open>x === 0\<close>, which both zeros pass.\<close>

fun isNaN :: "number \<Rightarrow> bool" where
  "isNaN NaN = True"
| "isNaN x = False"

fun isFinite :: "number \<Rightarrow> bool" where
  "isFinite (Finite s m e) = True"
| "isFinite x = False"

fun is_zero :: "number \<Rightarrow> bool" where
  "is_zero (Finite s m e) = (m = 0)"
| "is_zero x = False"

text \<open>
  \<^verbatim>\<open>Math.round\<close>: the integer nearest to the argument, the one closer to plus infinity
  on a tie, which is the floor of the argument plus one half; a zero result keeps the
  sign of the argument; an integer and a value that is not finite are returned as they
  are.
\<close>

fun math_round :: "number \<Rightarrow> number" where
  "math_round (Finite s m e) =
     (if 0 \<le> e then Finite s m e
      else
        (let n = (2 * signed s m + 2 ^ nat (- e)) div 2 ^ nat (1 - e)
         in if n = 0 then Finite s 0 (- 1074) else of_dyadic (n < 0) \<bar>n\<bar> 0))"
| "math_round x = x"

text \<open>\<^verbatim>\<open>Number.EPSILON\<close> is \<open>2 ^ - 52\<close>; the scale of \<^verbatim>\<open>compute\<close> is \<open>100000000\<close>.\<close>

definition EPSILON :: number where
  "EPSILON = of_dyadic False 1 (- 52)"

definition scale :: number where
  "scale = of_dyadic False 100000000 0"

section \<open>Strings and numbers\<close>

text \<open>
  A JavaScript string is modelled as a list of characters. Every string the calculator
  builds is made of ASCII characters, so that \<^verbatim>\<open>length\<close>, \<^verbatim>\<open>slice\<close>,
  \<^verbatim>\<open>split\<close> and \<^verbatim>\<open>includes\<close> count and cut as the list operations do.
\<close>

definition digit_chars :: string where
  "digit_chars = ''0123456789''"

definition is_digit :: "char \<Rightarrow> bool" where
  "is_digit c = (c \<in> set digit_chars)"

definition digit_value :: "char \<Rightarrow> int" where
  "digit_value c = int (of_char c) - 48"

definition digit_char :: "int \<Rightarrow> char" where
  "digit_char d = digit_chars ! nat (d mod 10)"

text \<open>The decimal numeral of a non-negative integer, and the value of a numeral.\<close>

function digits :: "int \<Rightarrow> string" where
  "digits n = (if n < 10 then [digit_char n] else digits (n div 10) @ [digit_char n])"
  by pat_completeness auto
termination
proof (relation "measure nat")
  show "wf (measure nat)" by simp
next
  fix n :: int
  assume "\<not> n < 10"
  then have "0 < n" by simp
  then have "n div 10 < n" by (rule int_div_less_self) simp
  with \<open>0 < n\<close> show "(n div 10, n) \<in> measure nat" by simp
qed

declare digits.simps [simp del]

definition digits_value :: "string \<Rightarrow> int" where
  "digits_value ds = foldl (\<lambda>a c. 10 * a + digit_value c) 0 ds"

subsection \<open>\<^verbatim>\<open>Number.prototype.toString\<close>\<close>

text \<open>
  ECMAScript's \<^verbatim>\<open>Number::toString\<close> (radix 10) writes a positive finite \<open>x\<close> from
  integers \<open>n\<close>, \<open>k\<close>, \<open>s\<close> with \<open>k \<ge> 1\<close>, \<open>10 ^ (k - 1) \<le> s < 10 ^ k\<close>, such that
  \<open>s * 10 ^ (n - k)\<close> is \<open>x\<close> as a number and \<open>k\<close> is as small as possible; of several \<open>s\<close>
  the one nearest to \<open>x\<close> is taken, an even one on a tie.

  With \<open>10 ^ (n0 - 1) \<le> x < 10 ^ n0\<close> and \<open>x / 10 ^ (n0 - k)\<close> the fraction \<open>p / q\<close>, the only
  candidates for a given \<open>k\<close> are the decimals \<open>lo = \<lfloor>p / q\<rfloor>\<close> and \<open>lo + 1\<close> around \<open>x\<close>; when
  \<open>lo + 1\<close> has \<open>k + 1\<close> digits it is the power of ten above \<open>x\<close>, written with a larger \<open>n\<close>.
  The lower candidate is the nearer one when \<open>2 * p < (2 * lo + 1) * q\<close>. The search runs
  from \<open>k = 1\<close>; seventeen digits always identify a binary64 value, so at \<open>k = 17\<close> the
  candidates are taken without a further test.
\<close>

definition candidates :: "int \<Rightarrow> int \<Rightarrow> nat \<Rightarrow> (int \<times> int) list" where
  "candidates lo n0 k =
     [(lo, n0), (if lo + 1 < 10 ^ k then (lo + 1, n0) else (10 ^ (k - 1), n0 + 1))]"

definition round_trips :: "int \<Rightarrow> int \<Rightarrow> nat \<Rightarrow> int \<times> int \<Rightarrow> bool" where
  "round_trips m e k c = (case c of (s, n) \<Rightarrow> of_decimal False s (n - int k) = Finite False m e)"

definition closer :: "int \<Rightarrow> int \<Rightarrow> int \<times> int \<Rightarrow> int \<times> int \<Rightarrow> int \<times> int" where
  "closer p q c1 c2 =
     (let d = 2 * p - (2 * fst c1 + 1) * q
      in if d < 0 then c1 else if 0 < d then c2 else if even (fst c1) then c1 else c2)"

fun nearest :: "int \<Rightarrow> int \<Rightarrow> (int \<times> int) list \<Rightarrow> (int \<times> int) option" where
  "nearest p q [] = None"
| "nearest p q [c] = Some c"
| "nearest p q (c1 # c2 # cs) = Some (closer p q c1 c2)"

function shortest :: "int \<Rightarrow> int \<Rightarrow> int \<Rightarrow> nat \<Rightarrow> int \<times> int \<times> nat" where
  "shortest m e n0 k =
     (let p = m * 2 ^ nat e * 10 ^ nat (int k - n0);
          q = 2 ^ nat (- e) * 10 ^ nat (n0 - int k);
          lo = p div q
      in case nearest p q (filter (\<lambda>c. 17 \<le> k \<or> round_trips m e k c) (candidates lo n0 k)) of
           Some (s, n) \<Rightarrow> (s, n, k)
         | None \<Rightarrow> shortest m e n0 (k + 1))"
  by pat_completeness auto
termination
proof (relation "measure (\<lambda>(m, e, n0, k). 17 - k)")
  show "wf (measure (\<lambda>(m, e, n0, k). 17 - k))" by simp
next
  fix m e n0 :: int and k :: nat and p q lo :: int
  let ?cs = "filter (\<lambda>c. 17 \<le> k \<or> round_trips m e k c) (candidates lo n0 k)"
  assume none: "nearest p q ?cs = None"
  have "?cs = []"
  proof (cases ?cs)
    case Nil
    then show ?thesis .
  next
    case (Cons c cs)
    with none show ?thesis by (cases cs) simp_all
  qed
  then have "\<not> 17 \<le> k"
    by (auto simp: candidates_def split: if_splits)
  then show "((m, e, n0, k + 1), (m, e, n0, k)) \<in> measure (\<lambda>(m, e, n0, k). 17 - k)"
    by simp
qed

declare shortest.simps [simp del]

definition shortest_digits :: "int \<Rightarrow> int \<Rightarrow> int \<times> int \<times> nat" where
  "shortest_digits m e =
     shortest m e (floor_log 10 (m * 2 ^ nat e) (2 ^ nat (- e)) + 1) 1"

definition zeros :: "int \<Rightarrow> string" where
  "zeros n = replicate (nat n) (CHR ''0'')"

definition positive_toString :: "int \<Rightarrow> int \<Rightarrow> string" where
  "positive_toString m e =
     (case shortest_digits m e of (s, n, k) \<Rightarrow>
        (let ds = digits s
         in if int k \<le> n \<and> n \<le> 21 then ds @ zeros (n - int k)
            else if 0 < n \<and> n \<le> 21 then take (nat n) ds @ ''.'' @ drop (nat n) ds
            else if - 6 < n \<and> n \<le> 0 then ''0.'' @ zeros (- n) @ ds
            else
              (let x = n - 1; es = (if x < 0 then ''-'' else ''+'') @ digits \<bar>x\<bar>
               in if k = 1 then ds @ ''e'' @ es
                  else take 1 ds @ ''.'' @ drop 1 ds @ ''e'' @ es)))"

fun toString :: "number \<Rightarrow> string" where
  "toString NaN = ''NaN''"
| "toString (Infty s) = (if s then ''-Infinity'' else ''Infinity'')"
| "toString (Finite s m e) =
     (if m = 0 then ''0'' else (if s then ''-'' else '''') @ positive_toString m e)"

subsection \<open>\<^verbatim>\<open>parseFloat\<close>\<close>

text \<open>
  \<^verbatim>\<open>parseFloat\<close> skips leading white space and reads the longest prefix that is a
  \<^verbatim>\<open>StrDecimalLiteral\<close>: an optional sign, then \<^verbatim>\<open>Infinity\<close>, or digits with an
  optional point and fraction, or a point and digits, each with an optional exponent part
  (an \<^verbatim>\<open>e\<close> or \<^verbatim>\<open>E\<close>, an optional sign, digits). Without such a prefix the
  result is \<^verbatim>\<open>NaN\<close>; otherwise it is the number nearest to the decimal value read.
  (ECMAScript lets an implementation drop digits after the twentieth significant one;
  no operand of the calculator has that many.)
\<close>

definition is_space :: "char \<Rightarrow> bool" where
  "is_space c = ((of_char c :: nat) \<in> {9, 10, 11, 12, 13, 32, 160})"

definition exponent_digits :: "bool \<Rightarrow> string \<Rightarrow> int" where
  "exponent_digits neg r =
     (let ds = takeWhile is_digit r
      in if ds = [] then 0 else if neg then - digits_value ds else digits_value ds)"

fun exponent_part :: "string \<Rightarrow> int" where
  "exponent_part (c # d # r) =
     (if c = CHR ''e'' \<or> c = CHR ''E'' then
        (if d = CHR ''-'' then exponent_digits True r
         else if d = CHR ''+'' then exponent_digits False r
         else exponent_digits False (d # r))
      else 0)"
| "exponent_part r = 0"

definition str_unsigned :: "bool \<Rightarrow> string \<Rightarrow> number" where
  "str_unsigned s r =
     (if take 8 r = ''Infinity'' then Infty s
      else
        (let ip = takeWhile is_digit r; r1 = dropWhile is_digit r
         in if r1 \<noteq> [] \<and> hd r1 = CHR ''.'' then
              (let fp = takeWhile is_digit (tl r1); r3 = dropWhile is_digit (tl r1)
               in if ip = [] \<and> fp = [] then NaN
                  else of_decimal s (digits_value (ip @ fp))
                         (exponent_part r3 - int (length fp)))
            else if ip = [] then NaN
            else of_decimal s (digits_value ip) (exponent_part r1)))"

definition parseFloat :: "string \<Rightarrow> number" where
  "parseFloat str =
     (let t = dropWhile is_space str
      in if t \<noteq> [] \<and> hd t = CHR ''-'' then str_unsigned True (tl t)
         else if t \<noteq> [] \<and> hd t = CHR ''+'' then str_unsigned False (tl t)
         else str_unsigned False t)"

subsection \<open>\<^verbatim>\<open>toLocaleString\<close>\<close>

text \<open>
  \<^verbatim>\<open>toLocaleString('en', { maximumFractionDigits: 0 })\<close>, the only formatter call of the
  program: the number is rounded to an integer, a tie going away from zero (the default
  rounding mode \<^verbatim>\<open>halfExpand\<close>), and written without exponent, its digits in groups of
  three divided by commas, after a minus sign when the sign bit is set (a negative zero
  is written \<^verbatim>\<open>-0\<close>). A value with a fraction rounds to an integer below \<open>2 ^ 53\<close>,
  written in full; the digits of a larger value are those of \<^verbatim>\<open>toString\<close>, followed
  by zeros up to the units, as browsers' formatters produce them. The infinity sign of
  the locale, U+221E, is written as the three bytes of its UTF-8 form.
\<close>

fun group_thousands :: "string \<Rightarrow> string" where
  "group_thousands ds =
     (if length ds \<le> 3 then ds
      else group_thousands (take (length ds - 3) ds) @ '','' @ drop (length ds - 3) ds)"

declare group_thousands.simps [simp del]

definition integer_digits :: "int \<Rightarrow> int \<Rightarrow> string" where
  "integer_digits m e =
     (if e < 0 then digits ((2 * m + 2 ^ nat (- e)) div 2 ^ nat (1 - e))
      else if m = 0 then ''0''
      else (case shortest_digits m e of (s, n, k) \<Rightarrow> digits s @ zeros (n - int k)))"

definition infinity_sign :: string where
  "infinity_sign = [CHR 0xE2, CHR 0x88, CHR 0x9E]"

fun toLocaleString :: "number \<Rightarrow> string" where
  "toLocaleString NaN = ''NaN''"
| "toLocaleString (Infty s) = (if s then ''-'' else '''') @ infinity_sign"
| "toLocaleString (Finite s m e) =
     (if s then ''-'' else '''') @ group_thousands (integer_digits m e)"

section \<open>The calculator\<close>

text \<open>
  The four fields that the methods of class \<^verbatim>\<open>Calculator\<close> read and write. The
  two operands are strings; \<^verbatim>\<open>operation\<close> is a string or \<^verbatim>\<open>undefined\<close>
  (\<open>None\<close>). The two display elements belong to the page and are not part of the state;
  \<^verbatim>\<open>maxDigits\<close> is set once by the constructor and never written again.
\<close>

record calculator =
  currentOperand :: string
  previousOperand :: string
  operation :: "string option"
  shouldResetDisplay :: bool

definition maxDigits :: nat where
  "maxDigits = 12"

text \<open>
  The operator symbols as the buttons and \<^verbatim>\<open>mapOperatorKey\<close> pass them. The
  multiplication and division signs are the characters U+00D7 and U+00F7.
\<close>

definition Add :: string where "Add = ''+''"
definition Sub :: string where "Sub = ''-''"
definition Mul :: string where "Mul = [CHR 0xD7]"
definition Div :: string where "Div = [CHR 0xF7]"
definition Mod :: string where "Mod = ''%''"

text \<open>
  \<^verbatim>\<open>showError(message)\<close> paints the display, logs the message and starts a timer
  that calls \<^verbatim>\<open>clear()\<close> 1.5 seconds later; it writes none of the four fields itself.
  A method that may call it returns the message beside the state (\<open>None\<close> when it did
  not). The timer's later effect on the state is a call of \<open>clear\<close>.
\<close>

definition DivideByZero :: string where "DivideByZero = ''Cannot divide by zero!''"
definition ModuloByZero :: string where "ModuloByZero = ''Cannot modulo by zero!''"
definition Overflow :: string where "Overflow = ''Result too large!''"

definition clear :: "calculator \<Rightarrow> calculator" where
  "clear c = c\<lparr>currentOperand := '''', previousOperand := '''', operation := None,
              shouldResetDisplay := False\<rparr>"

text \<open>The constructor calls \<^verbatim>\<open>clear()\<close> on the new object.\<close>

definition initial :: calculator where
  "initial = \<lparr>currentOperand = '''', previousOperand = '''', operation = None,
              shouldResetDisplay = False\<rparr>"

text \<open>\<^verbatim>\<open>slice(0, -1)\<close> drops the last character; the empty string stays empty.\<close>

definition delete :: "calculator \<Rightarrow> calculator" where
  "delete c =
     (if shouldResetDisplay c then clear c
      else c\<lparr>currentOperand := butlast (currentOperand c)\<rparr>)"

definition appendNumber :: "string \<Rightarrow> calculator \<Rightarrow> calculator" where
  "appendNumber number c =
     (let c1 = (if shouldResetDisplay c
                then c\<lparr>currentOperand := '''', shouldResetDisplay := False\<rparr> else c)
      in if number = ''.'' \<and> CHR ''.'' \<in> set (currentOperand c1) then c1
         else if maxDigits \<le> length (currentOperand c1) then c1
         else c1\<lparr>currentOperand := currentOperand c1 @ number\<rparr>)"

text \<open>
  \<^verbatim>\<open>compute\<close>: every \<^verbatim>\<open>return\<close> before the last four assignments leaves the
  state as it was.
\<close>

definition round8 :: "number \<Rightarrow> number" where
  "round8 x = js_div (math_round (js_mul (js_add x EPSILON) scale)) scale"

text \<open>
  For comparison, the rounding as the specification words it: the result is multiplied by
  \<open>10 ^ 8\<close>, rounded to the nearest integer with a tie going away from zero, and divided
  by \<open>10 ^ 8\<close>.
\<close>

fun round_half_away :: "number \<Rightarrow> number" where
  "round_half_away (Finite s m e) =
     (if 0 \<le> e then Finite s m e
      else
        (let n = (2 * m + 2 ^ nat (- e)) div 2 ^ nat (1 - e)
         in if n = 0 then Finite s 0 (- 1074) else of_dyadic s n 0))"
| "round_half_away x = x"

definition spec_round8 :: "number \<Rightarrow> number" where
  "spec_round8 x = js_div (round_half_away (js_mul x scale)) scale"

text \<open>The end of \<^verbatim>\<open>compute\<close>: the overflow test, the rounding and the four assignments.\<close>

definition store :: "number \<Rightarrow> calculator \<Rightarrow> calculator" where
  "store computation c =
     c\<lparr>currentOperand := toString (round8 computation), operation := None,
       previousOperand := [], shouldResetDisplay := True\<rparr>"

definition finish :: "number \<Rightarrow> calculator \<Rightarrow> string option \<times> calculator" where
  "finish computation c =
     (if \<not> isFinite computation then (Some Overflow, c) else (None, store computation c))"

definition compute :: "calculator \<Rightarrow> string option \<times> calculator" where
  "compute c =
     (let prev = parseFloat (previousOperand c); current = parseFloat (currentOperand c)
      in if isNaN prev \<or> isNaN current then (None, c)
         else if operation c = Some Add then finish (js_add prev current) c
         else if operation c = Some Sub then finish (js_sub prev current) c
         else if operation c = Some Mul then finish (js_mul prev current) c
         else if operation c = Some Div then
           (if is_zero current then (Some DivideByZero, c)
            else finish (js_div prev current) c)
         else if operation c = Some Mod then
           (if is_zero current then (Some ModuloByZero, c)
            else finish (js_rem prev current) c)
         else (None, c))"

definition chooseOperation :: "string \<Rightarrow> calculator \<Rightarrow> string option \<times> calculator" where
  "chooseOperation op c =
     (if currentOperand c = '''' \<and> previousOperand c = '''' then (None, c)
      else if currentOperand c = '''' \<and> previousOperand c \<noteq> '''' then
        (None, c\<lparr>operation := Some op\<rparr>)
      else
        (let (e, c1) = (if previousOperand c \<noteq> '''' \<and> \<not> shouldResetDisplay c
                        then compute c else (None, c))
         in (e, c1\<lparr>operation := Some op, previousOperand := currentOperand c1,
                    currentOperand := '''', shouldResetDisplay := False\<rparr>)))"

subsection \<open>Display\<close>

text \<open>
  \<^verbatim>\<open>split('.')\<close> cuts a string at every point; the destructuring assignment of
  \<^verbatim>\<open>getDisplayNumber\<close> takes the first piece and, when there is one, the second.
\<close>

fun split :: "char \<Rightarrow> string \<Rightarrow> string list" where
  "split sep [] = [[]]"
| "split sep (x # xs) =
     (if x = sep then [] # split sep xs
      else (case split sep xs of p # ps \<Rightarrow> (x # p) # ps | [] \<Rightarrow> [[x]]))"

definition integerDisplay :: "string \<Rightarrow> string" where
  "integerDisplay integerPart =
     (let integerDigits = parseFloat integerPart
      in if isNaN integerDigits then '''' else toLocaleString integerDigits)"

definition getDisplayNumber :: "string \<Rightarrow> string" where
  "getDisplayNumber number =
     (if number = '''' then ''''
      else
        (let parts = split (CHR ''.'') number
         in case tl parts of
              decimalPart # rest \<Rightarrow> integerDisplay (hd parts) @ ''.'' @ take 8 decimalPart
            | [] \<Rightarrow> integerDisplay (hd parts)))"

subsection \<open>Input\<close>

text \<open>
  The handlers of \<^verbatim>\<open>UIController\<close>, one for each kind of button or key, call one
  method each and repaint the display.
\<close>

datatype input =
    NumberInput string
  | OperatorInput string
  | EqualsInput
  | ClearInput
  | DeleteInput

fun handle :: "input \<Rightarrow> calculator \<Rightarrow> calculator" where
  "handle (NumberInput number) c = appendNumber number c"
| "handle (OperatorInput op) c = snd (chooseOperation op c)"
| "handle EqualsInput c = snd (compute c)"
| "handle ClearInput c = clear c"
| "handle DeleteInput c = delete c"

text \<open>
  What \<^verbatim>\<open>handleNumberInput\<close> receives: the text of a number button, or a key that
  passes \<^verbatim>\<open>isNumberKey\<close>; either is one character, a digit or the point.
\<close>

definition number_token :: "string \<Rightarrow> bool" where
  "number_token key = (length key = 1 \<and> (is_digit (hd key) \<or> key = ''.''))"

text \<open>
  The states the calculator can be in: the state the constructor leaves, and every state
  that one of the five methods makes of a reachable state. The timer of
  \<^verbatim>\<open>showError\<close> calls \<^verbatim>\<open>clear\<close>, so that its firing at any later moment is the
  fifth rule.
\<close>

inductive reachable :: "calculator \<Rightarrow> bool" where
  start: "reachable initial"
| number: "reachable c \<Longrightarrow> number_token key \<Longrightarrow> reachable (appendNumber key c)"
| operator: "reachable c \<Longrightarrow> reachable (snd (chooseOperation op c))"
| equals: "reachable c \<Longrightarrow> reachable (snd (compute c))"
| clear: "reachable c \<Longrightarrow> reachable (clear c)"
| delete: "reachable c \<Longrightarrow> reachable (delete c)"

fun valid_input :: "input \<Rightarrow> bool" where
  "valid_input (NumberInput number) = number_token number"
| "valid_input ev = True"

text \<open>A sequence of inputs, handled from left to right.\<close>

definition run :: "input list \<Rightarrow> calculator \<Rightarrow> calculator" where
  "run evs c = foldl (\<lambda>c ev. handle ev c) c evs"

section \<open>What \<^verbatim>\<open>toString\<close> can write\<close>

lemma digit_char_in: "digit_char d \<in> set digit_chars"
proof -
  have "nat (d mod 10) < length digit_chars"
    by (simp add: digit_chars_def nat_less_iff)
  then show ?thesis unfolding digit_char_def by (rule nth_mem)
qed

lemma digit_char_not_point: "digit_char d \<noteq> CHR ''.''" "CHR ''.'' \<noteq> digit_char d"
  using digit_char_in [of d] by (auto simp: digit_chars_def)

lemma digits_no_point: "CHR ''.'' \<notin> set (digits n)"
proof (induction n rule: digits.induct)
  case (1 n)
  then show ?case
    by (subst digits.simps) (simp add: digit_char_not_point)
qed

lemma digits_not_empty: "digits n \<noteq> []"
  by (subst digits.simps) simp

lemma count_digits: "count_list (digits n) (CHR ''.'') = 0"
  by (simp add: digits_no_point)

lemma count_take_digits: "count_list (take j (digits n)) (CHR ''.'') = 0"
  using digits_no_point [of n] by (auto simp: count_list_0_iff dest: in_set_takeD)

lemma count_drop_digits: "count_list (drop j (digits n)) (CHR ''.'') = 0"
  using digits_no_point [of n] by (auto simp: count_list_0_iff dest: in_set_dropD)

lemma count_zeros: "count_list (zeros n) (CHR ''.'') = 0"
  by (simp add: zeros_def)

lemma positive_toString_points: "count_list (positive_toString m e) (CHR ''.'') \<le> 1"
  by (simp add: positive_toString_def Let_def count_digits count_take_digits
      count_drop_digits count_zeros split: prod.split)

lemma toString_points: "count_list (toString x) (CHR ''.'') \<le> 1"
proof (cases x)
  case (Finite s m e)
  then show ?thesis using positive_toString_points [of m e] by simp
qed simp_all

lemma positive_toString_not_empty: "positive_toString m e \<noteq> []"
  by (simp add: positive_toString_def Let_def digits_not_empty split: prod.split)

lemma toString_not_empty: "toString x \<noteq> []"
  by (cases x) (simp_all add: positive_toString_not_empty)

section \<open>Integers are exact\<close>

lemma width_zero: "width b 0 = 0"
  by (simp add: width.simps)

lemma width_positive: "0 < n \<Longrightarrow> width 2 n = width 2 (n div 2) + 1"
  by (subst width.simps) simp

lemma width_bounds: "0 < n \<Longrightarrow> 2 ^ (width 2 n - 1) \<le> n \<and> n < 2 ^ width 2 n"
proof (induction "2 :: int" n rule: width.induct)
  case (1 n)
  note pos = \<open>0 < n\<close>
  show ?case
  proof (cases "n div 2 = 0")
    case True
    with pos have "n = 1" by presburger
    then show ?thesis by (simp add: width_positive width_zero)
  next
    case False
    with pos have half: "0 < n div 2" by presburger
    with pos 1 have IH: "2 ^ (width 2 (n div 2) - 1) \<le> n div 2"
      "n div 2 < 2 ^ width 2 (n div 2)"
      by simp_all
    from half have "width 2 (n div 2) = width 2 (n div 2 div 2) + 1"
      by (rule width_positive)
    then obtain j where j: "width 2 (n div 2) = Suc j" by simp
    have "2 * (n div 2) \<le> n" "n < 2 * (n div 2) + 2" by presburger+
    with IH show ?thesis
      by (simp add: width_positive [OF pos] j)
  qed
qed

lemma width_one: "width 2 1 = 1"
  by (simp add: width_positive width_zero)

lemma to_double_int:
  assumes "0 < v" and "v < 2 ^ 53"
  shows "to_double s v 1 = Finite s (v * 2 ^ (53 - width 2 v)) (int (width 2 v) - 53)"
proof -
  from width_bounds [OF assms(1)]
  have lo: "2 ^ (width 2 v - 1) \<le> v" and hi: "v < 2 ^ width 2 v" by simp_all
  have wpos: "0 < width 2 v"
    using assms(1) by (simp add: width_positive)
  have "(2 :: int) ^ (width 2 v - 1) < 2 ^ 53"
    using lo assms(2) by linarith
  then have "width 2 v - 1 < 53"
    by (rule power_less_imp_less_exp [rotated]) simp
  then have w53: "width 2 v \<le> 53"
    by simp
  have fl: "floor_log 2 v 1 = int (width 2 v) - 1"
    using lo wpos by (simp add: floor_log_def width_one Let_def nat_diff_distrib')
  have e: "max (int (width 2 v) - 53) (- 1074) = int (width 2 v) - 53"
    by simp
  have k: "nat (53 - int (width 2 v)) = 53 - width 2 v"
    "nat (int (width 2 v) - 53) = 0"
    using w53 by simp_all
  have "v * 2 ^ (53 - width 2 v) < 2 ^ width 2 v * 2 ^ (53 - width 2 v)"
    using hi by simp
  also have "\<dots> = 2 ^ 53"
    using w53 by (simp flip: power_add)
  finally have m: "v * 2 ^ (53 - width 2 v) \<noteq> 2 ^ 53"
    by simp
  show ?thesis
    using assms(1) m w53
    by (simp add: to_double_def fl e k round_ties_even_def Let_def)
qed


lemma value_of_to_double_int:
  assumes "0 < v" and "v < 2 ^ 53"
  shows "isFinite (to_double s v 1) \<and> value_of (to_double s v 1) = of_int (signed s v)"
proof -
  from width_bounds [OF assms(1)] have "2 ^ (width 2 v - 1) \<le> v" by simp
  with assms(2) have "(2 :: int) ^ (width 2 v - 1) < 2 ^ 53" by linarith
  then have "width 2 v - 1 < 53"
    by (rule power_less_imp_less_exp [rotated]) simp
  then have k: "nat (53 - int (width 2 v)) = 53 - width 2 v" "nat (int (width 2 v) - 53) = 0"
    by simp_all
  show ?thesis
    by (simp add: to_double_int [OF assms] signed_def k)
qed

text \<open>
  \<^verbatim>\<open>Math.round\<close> of a finite number is the number of the integer \<open>\<lfloor>v + 1 / 2\<rfloor>\<close>, where
  \<open>v\<close> is the value of the argument: the nearest integer, the upper one on a tie.
\<close>

lemma math_round_value:
  assumes "0 \<le> m" and "m < 2 ^ 53"
  shows "isFinite (math_round (Finite s m e)) \<and>
    value_of (math_round (Finite s m e)) = of_int \<lfloor>value_of (Finite s m e) + 1 / 2\<rfloor>"
proof (cases "0 \<le> e")
  case True
  have "\<lfloor>(of_int z :: rat) + 1 / 2\<rfloor> = z" for z
    by (rule floor_unique) simp_all
  from this [of "signed s m * 2 ^ nat e"] True
  have "of_int \<lfloor>value_of (Finite s m e) + 1 / 2\<rfloor> = value_of (Finite s m e)"
    by simp
  with True show ?thesis by simp
next
  case False
  define k where "k = nat (- e)"
  define p :: int where "p = 2 ^ k"
  define a where "a = 2 * signed s m + p"
  define n where "n = a div (2 * p)"
  from False have kpos: "0 < k" and ke: "nat (- e) = k" "nat (1 - e) = Suc k" "nat e = 0"
    by (simp_all add: k_def)
  have p2: "2 \<le> p"
    using kpos unfolding p_def by (cases k) simp_all
  have sm: "- (2 ^ 53) < signed s m" "signed s m < 2 ^ 53"
    using assms by (simp_all add: signed_def)
  have "value_of (Finite s m e) + 1 / 2 = of_int a / of_int (2 * p)"
    using p2 by (simp add: ke p_def a_def field_simps)
  then have floor: "\<lfloor>value_of (Finite s m e) + 1 / 2\<rfloor> = n"
    unfolding n_def by (simp only: floor_divide_of_int_eq)
  have round: "math_round (Finite s m e) =
      (if n = 0 then Finite s 0 (- 1074) else to_double (n < 0) \<bar>n\<bar> 1)"
    using False by (simp add: ke n_def a_def p_def Let_def of_dyadic_def)
  show ?thesis
  proof (cases "n = 0")
    case True
    with round floor show ?thesis by (simp add: signed_def)
  next
    case False
    define q where "q = p * n"
    have quotient: "2 * q \<le> a" "a < 2 * q + 2 * p"
    proof -
      have "a = 2 * p * n + a mod (2 * p)" by (simp add: n_def)
      moreover have "0 \<le> a mod (2 * p)" "a mod (2 * p) < 2 * p"
        using p2 by simp_all
      ultimately show "2 * q \<le> a" "a < 2 * q + 2 * p"
        unfolding q_def by linarith+
    qed
    have "n < 2 ^ 53"
    proof (rule ccontr)
      assume "\<not> n < 2 ^ 53"
      then have "p * 2 ^ 53 \<le> q"
        unfolding q_def using p2 by (intro mult_left_mono) simp_all
      with quotient(1) sm(2) p2 show False by (simp add: a_def)
    qed
    moreover have "- (2 ^ 53) < n"
    proof (rule ccontr)
      assume "\<not> - (2 ^ 53) < n"
      then have "q \<le> p * (- (2 ^ 53))"
        unfolding q_def using p2 by (intro mult_left_mono) simp_all
      with quotient(2) sm(1) p2 show False by (simp add: a_def)
    qed
    ultimately have "0 < \<bar>n\<bar>" "\<bar>n\<bar> < 2 ^ 53"
      using False by simp_all
    from value_of_to_double_int [OF this, of "n < 0"] round False floor
    show ?thesis by (auto simp: signed_def)
  qed
qed

section \<open>The methods\<close>

lemma operators_distinct:
  "Add \<noteq> Sub" "Add \<noteq> Mul" "Add \<noteq> Div" "Add \<noteq> Mod" "Sub \<noteq> Mul" "Sub \<noteq> Div"
  "Sub \<noteq> Mod" "Mul \<noteq> Div" "Mul \<noteq> Mod" "Div \<noteq> Mod"
  "Sub \<noteq> Add" "Mul \<noteq> Add" "Div \<noteq> Add" "Mod \<noteq> Add" "Mul \<noteq> Sub" "Div \<noteq> Sub"
  "Mod \<noteq> Sub" "Div \<noteq> Mul" "Mod \<noteq> Mul" "Mod \<noteq> Div"
  by (simp_all add: Add_def Sub_def Mul_def Div_def Mod_def)

text \<open>
  Claim C7. \<^verbatim>\<open>delete()\<close> gives the state of \<^verbatim>\<open>clear()\<close> when
  \<^verbatim>\<open>shouldResetDisplay\<close> is set. Otherwise it drops the last character of
  \<^verbatim>\<open>currentOperand\<close> and leaves the other three fields as they were; on an empty
  \<^verbatim>\<open>currentOperand\<close> that changes nothing.
\<close>

theorem delete_clear_or_butlast:
  "(shouldResetDisplay c \<longrightarrow> delete c = clear c) \<and>
   (\<not> shouldResetDisplay c \<longrightarrow>
      delete c = c\<lparr>currentOperand := butlast (currentOperand c)\<rparr> \<and>
      previousOperand (delete c) = previousOperand c \<and>
      operation (delete c) = operation c \<and>
      shouldResetDisplay (delete c) = shouldResetDisplay c) \<and>
   (\<not> shouldResetDisplay c \<and> currentOperand c = '''' \<longrightarrow> delete c = c)"
  by (simp add: delete_def)

theorem delete_clear_or_butlast_witness:
  "delete \<lparr>currentOperand = ''7'', previousOperand = '''', operation = None,
           shouldResetDisplay = True\<rparr> = initial \<and>
   delete \<lparr>currentOperand = ''12'', previousOperand = ''3'', operation = Some Add,
           shouldResetDisplay = False\<rparr> =
     \<lparr>currentOperand = ''1'', previousOperand = ''3'', operation = Some Add,
      shouldResetDisplay = False\<rparr> \<and>
   delete \<lparr>currentOperand = '''', previousOperand = ''3'', operation = Some Add,
           shouldResetDisplay = False\<rparr> =
     \<lparr>currentOperand = '''', previousOperand = ''3'', operation = Some Add,
      shouldResetDisplay = False\<rparr>"
  using
    delete_clear_or_butlast [of "\<lparr>currentOperand = ''7'', previousOperand = '''',
      operation = None, shouldResetDisplay = True\<rparr>"]
    delete_clear_or_butlast [of "\<lparr>currentOperand = ''12'', previousOperand = ''3'',
      operation = Some Add, shouldResetDisplay = False\<rparr>"]
    delete_clear_or_butlast [of "\<lparr>currentOperand = '''', previousOperand = ''3'',
      operation = Some Add, shouldResetDisplay = False\<rparr>"]
  by (simp add: clear_def initial_def)

text \<open>
  Claim C8. With an empty \<^verbatim>\<open>currentOperand\<close> and a non-empty
  \<^verbatim>\<open>previousOperand\<close>, \<^verbatim>\<open>chooseOperation(op)\<close> only replaces the pending operation:
  the other three fields keep their values, and nothing is computed and no error shown,
  whatever the operands and the operation were.
\<close>

theorem chooseOperation_replaces_operator:
  "currentOperand c = '''' \<Longrightarrow> previousOperand c \<noteq> '''' \<Longrightarrow>
   chooseOperation op c = (None, c\<lparr>operation := Some op\<rparr>)"
  by (simp add: chooseOperation_def)

theorem chooseOperation_replaces_operator_witness:
  "chooseOperation Div \<lparr>currentOperand = '''', previousOperand = ''10'', operation = Some Add,
      shouldResetDisplay = False\<rparr> =
   (None, \<lparr>currentOperand = '''', previousOperand = ''10'', operation = Some Div,
      shouldResetDisplay = False\<rparr>)"
  using chooseOperation_replaces_operator [of "\<lparr>currentOperand = '''', previousOperand = ''10'',
      operation = Some Add, shouldResetDisplay = False\<rparr>" Div]
  by simp

lemma parse_10: "parseFloat ''10'' = Finite False 5629499534213120 (- 49)"
  by code_simp

lemma parse_0: "parseFloat ''0'' = Finite False 0 (- 1074)"
  by code_simp

text \<open>
  Claim C2. In a state with \<^verbatim>\<open>previousOperand\<close> \<^verbatim>\<open>"10"\<close>, the division
  operator and \<^verbatim>\<open>currentOperand\<close> \<^verbatim>\<open>"0"\<close>, whatever the flag, \<^verbatim>\<open>compute()\<close>
  shows the divide-by-zero error and leaves the four fields as they were. The same holds
  of every state whose first operand parses and whose second operand parses to a zero:
  with the division operator the divide-by-zero error, with the modulo operator the
  modulo-by-zero error, the state unchanged.
\<close>

theorem compute_zero_divisor:
  "compute \<lparr>currentOperand = ''0'', previousOperand = ''10'', operation = Some Div,
            shouldResetDisplay = r\<rparr> =
     (Some DivideByZero, \<lparr>currentOperand = ''0'', previousOperand = ''10'',
        operation = Some Div, shouldResetDisplay = r\<rparr>) \<and>
   (\<not> isNaN (parseFloat (previousOperand c)) \<and> is_zero (parseFloat (currentOperand c)) \<longrightarrow>
      (operation c = Some Div \<longrightarrow> compute c = (Some DivideByZero, c)) \<and>
      (operation c = Some Mod \<longrightarrow> compute c = (Some ModuloByZero, c)))"
proof -
  have zero_not_nan: "\<not> isNaN x" if "is_zero x" for x
    using that by (cases x) simp_all
  show ?thesis
    by (auto simp: compute_def Let_def parse_10 parse_0 operators_distinct zero_not_nan)
qed

theorem compute_zero_divisor_witness:
  "compute \<lparr>currentOperand = ''0'', previousOperand = ''10'', operation = Some Mod,
            shouldResetDisplay = False\<rparr> =
     (Some ModuloByZero, \<lparr>currentOperand = ''0'', previousOperand = ''10'',
        operation = Some Mod, shouldResetDisplay = False\<rparr>)"
  using compute_zero_divisor [of True "\<lparr>currentOperand = ''0'', previousOperand = ''10'',
      operation = Some Mod, shouldResetDisplay = False\<rparr>"]
  by (simp add: parse_10 parse_0)

lemma sum_3_4:
  "\<not> isNaN (parseFloat ''3'')"
  "\<not> isNaN (parseFloat ''4'')"
  "isFinite (js_add (parseFloat ''3'') (parseFloat ''4''))"
  "toString (round8 (js_add (parseFloat ''3'') (parseFloat ''4''))) = ''7''"
  by code_simp+

text \<open>
  Claim C4. \<^verbatim>\<open>compute()\<close> with \<^verbatim>\<open>previousOperand\<close> \<^verbatim>\<open>"3"\<close>, the addition operator
  and \<^verbatim>\<open>currentOperand\<close> \<^verbatim>\<open>"4"\<close> shows no error, stores \<^verbatim>\<open>"7"\<close> in
  \<^verbatim>\<open>currentOperand\<close>, clears \<^verbatim>\<open>operation\<close> and \<^verbatim>\<open>previousOperand\<close> and sets
  \<^verbatim>\<open>shouldResetDisplay\<close>.
\<close>

theorem compute_3_plus_4:
  "compute \<lparr>currentOperand = ''4'', previousOperand = ''3'', operation = Some Add,
            shouldResetDisplay = r\<rparr> =
     (None, \<lparr>currentOperand = ''7'', previousOperand = '''', operation = None,
        shouldResetDisplay = True\<rparr>)"
  by (simp add: compute_def finish_def store_def Let_def sum_3_4)

text \<open>
  Claim C1. From the initial state, \<^verbatim>\<open>appendNumber('3')\<close>, \<^verbatim>\<open>chooseOperation('+')\<close>
  and \<^verbatim>\<open>appendNumber('4')\<close> lead to the operands 3 and 4 with the addition pending; on
  that state \<^verbatim>\<open>compute()\<close> gives 7; and \<^verbatim>\<open>chooseOperation\<close> with the multiplication
  sign, which calls \<^verbatim>\<open>compute()\<close> first, leaves \<^verbatim>\<open>previousOperand\<close> \<^verbatim>\<open>"7"\<close>, the
  multiplication pending and \<^verbatim>\<open>currentOperand\<close> empty.
\<close>

theorem chained_calculation:
  "appendNumber ''4'' (snd (chooseOperation Add (appendNumber ''3'' initial))) =
     \<lparr>currentOperand = ''4'', previousOperand = ''3'', operation = Some Add,
      shouldResetDisplay = False\<rparr> \<and>
   compute \<lparr>currentOperand = ''4'', previousOperand = ''3'', operation = Some Add,
            shouldResetDisplay = False\<rparr> =
     (None, \<lparr>currentOperand = ''7'', previousOperand = '''', operation = None,
        shouldResetDisplay = True\<rparr>) \<and>
   chooseOperation Mul
     (appendNumber ''4'' (snd (chooseOperation Add (appendNumber ''3'' initial)))) =
     (None, \<lparr>currentOperand = '''', previousOperand = ''7'', operation = Some Mul,
        shouldResetDisplay = False\<rparr>)"
  by (simp add: appendNumber_def chooseOperation_def initial_def maxDigits_def
      compute_def finish_def store_def Let_def sum_3_4)

subsection \<open>Rounding\<close>

lemma epsilon_scale:
  "EPSILON = Finite False 4503599627370496 (- 104)"
  "scale = Finite False 6710886400000000 (- 26)"
  by code_simp+

lemma value_epsilon_scale: "value_of EPSILON = 1 / 2 ^ 52" "value_of scale = 10 ^ 8"
  by (simp_all add: epsilon_scale signed_def)

lemma sum_01_02:
  "\<not> isNaN (parseFloat ''0.1'')"
  "\<not> isNaN (parseFloat ''0.2'')"
  "isFinite (js_add (parseFloat ''0.1'') (parseFloat ''0.2''))"
  "toString (js_add (parseFloat ''0.1'') (parseFloat ''0.2'')) = ''0.30000000000000004''"
  "toString (round8 (js_add (parseFloat ''0.1'') (parseFloat ''0.2''))) = ''0.3''"
  by code_simp+

lemma tie_operands:
  "parseFloat ''0'' = Finite False 0 (- 1074)"
  "parseFloat ''4.001953125'' = Finite False 4505798650626048 (- 50)"
  by code_simp+

lemma tie_up:
  "js_add (Finite False 4505798650626048 (- 50)) (Finite False 0 (- 1074)) =
     Finite False 4505798650626048 (- 50)"
  "js_mul (js_add (Finite False 4505798650626048 (- 50)) EPSILON) scale =
     Finite False 6714163200000000 (- 24)"
  "toString (round8 (Finite False 4505798650626048 (- 50))) = ''4.00195313''"
  by code_simp+

lemma tie_down:
  "js_sub (Finite False 0 (- 1074)) (Finite False 4505798650626048 (- 50)) =
     Finite True 4505798650626048 (- 50)"
  "js_mul (js_add (Finite True 4505798650626048 (- 50)) EPSILON) scale =
     Finite True 6714163200000000 (- 24)"
  "js_mul (Finite True 4505798650626048 (- 50)) scale = Finite True 6714163200000000 (- 24)"
  "toString (round8 (Finite True 4505798650626048 (- 50))) = ''-4.00195312''"
  "toString (spec_round8 (Finite True 4505798650626048 (- 50))) = ''-4.00195313''"
  "toString (spec_round8 (js_add (Finite True 4505798650626048 (- 50)) EPSILON)) = ''-4.00195313''"
  by code_simp+


lemma compute_finish:
  assumes "\<not> isNaN (parseFloat (previousOperand c))" "\<not> isNaN (parseFloat (currentOperand c))"
  shows "operation c = Some Add \<Longrightarrow>
      compute c = finish (js_add (parseFloat (previousOperand c)) (parseFloat (currentOperand c))) c"
    and "operation c = Some Sub \<Longrightarrow>
      compute c = finish (js_sub (parseFloat (previousOperand c)) (parseFloat (currentOperand c))) c"
    and "operation c = Some Mul \<Longrightarrow>
      compute c = finish (js_mul (parseFloat (previousOperand c)) (parseFloat (currentOperand c))) c"
    and "operation c = Some Div \<Longrightarrow> \<not> is_zero (parseFloat (currentOperand c)) \<Longrightarrow>
      compute c = finish (js_div (parseFloat (previousOperand c)) (parseFloat (currentOperand c))) c"
    and "operation c = Some Mod \<Longrightarrow> \<not> is_zero (parseFloat (currentOperand c)) \<Longrightarrow>
      compute c = finish (js_rem (parseFloat (previousOperand c)) (parseFloat (currentOperand c))) c"
  using assms by (simp_all add: compute_def Let_def operators_distinct)

text \<open>
  Claim C3, as the code has it. When the operands parse, the divisor of a division or
  remainder is not zero and the result \<open>r\<close> of the operation is finite, \<^verbatim>\<open>compute()\<close>
  stores the string of \<open>r\<close> rounded so: \<^verbatim>\<open>Number.EPSILON\<close>, which is \<open>2 ^ - 52\<close>, is
  added, the sum is multiplied by \<open>10 ^ 8\<close>, \<^verbatim>\<open>Math.round\<close> takes the product to the
  nearest integer, the upper one on a tie (the floor of the value plus one half), and
  the integer is divided by \<open>10 ^ 8\<close>; each step gives a binary64 number. The sum of
  \<^verbatim>\<open>"0.1"\<close> and \<^verbatim>\<open>"0.2"\<close> is stored as \<^verbatim>\<open>"0.3"\<close>. The scaled value of 4.001953125
  is halfway between two integers: the sum with 0 is stored as \<^verbatim>\<open>"4.00195313"\<close>, the
  difference from 0 as \<^verbatim>\<open>"-4.00195312"\<close>.
\<close>

theorem compute_rounds_half_up:
  "(\<not> isNaN p \<and> \<not> isNaN q \<and> parseFloat (previousOperand c) = p \<and>
    parseFloat (currentOperand c) = q \<longrightarrow>
      (operation c = Some Add \<and> isFinite (js_add p q) \<longrightarrow>
         compute c = (None, store (js_add p q) c)) \<and>
      (operation c = Some Sub \<and> isFinite (js_sub p q) \<longrightarrow>
         compute c = (None, store (js_sub p q) c)) \<and>
      (operation c = Some Mul \<and> isFinite (js_mul p q) \<longrightarrow>
         compute c = (None, store (js_mul p q) c)) \<and>
      (operation c = Some Div \<and> \<not> is_zero q \<and> isFinite (js_div p q) \<longrightarrow>
         compute c = (None, store (js_div p q) c)) \<and>
      (operation c = Some Mod \<and> \<not> is_zero q \<and> isFinite (js_rem p q) \<longrightarrow>
         compute c = (None, store (js_rem p q) c))) \<and>
   currentOperand (store r c) =
     toString (js_div (math_round (js_mul (js_add r EPSILON) scale)) scale) \<and>
   value_of EPSILON = 1 / 2 ^ 52 \<and> value_of scale = 10 ^ 8 \<and>
   (0 \<le> m \<and> m < 2 ^ 53 \<longrightarrow>
      isFinite (math_round (Finite s m e)) \<and>
      value_of (math_round (Finite s m e)) = of_int \<lfloor>value_of (Finite s m e) + 1 / 2\<rfloor>) \<and>
   compute \<lparr>currentOperand = ''0.2'', previousOperand = ''0.1'', operation = Some Add,
            shouldResetDisplay = False\<rparr> =
     (None, \<lparr>currentOperand = ''0.3'', previousOperand = '''', operation = None,
        shouldResetDisplay = True\<rparr>) \<and>
   compute \<lparr>currentOperand = ''0'', previousOperand = ''4.001953125'', operation = Some Add,
            shouldResetDisplay = False\<rparr> =
     (None, \<lparr>currentOperand = ''4.00195313'', previousOperand = '''', operation = None,
        shouldResetDisplay = True\<rparr>) \<and>
   compute \<lparr>currentOperand = ''4.001953125'', previousOperand = ''0'', operation = Some Sub,
            shouldResetDisplay = False\<rparr> =
     (None, \<lparr>currentOperand = ''-4.00195312'', previousOperand = '''', operation = None,
        shouldResetDisplay = True\<rparr>)"
proof (intro conjI)
  show "\<not> isNaN p \<and> \<not> isNaN q \<and> parseFloat (previousOperand c) = p \<and>
    parseFloat (currentOperand c) = q \<longrightarrow>
      (operation c = Some Add \<and> isFinite (js_add p q) \<longrightarrow>
         compute c = (None, store (js_add p q) c)) \<and>
      (operation c = Some Sub \<and> isFinite (js_sub p q) \<longrightarrow>
         compute c = (None, store (js_sub p q) c)) \<and>
      (operation c = Some Mul \<and> isFinite (js_mul p q) \<longrightarrow>
         compute c = (None, store (js_mul p q) c)) \<and>
      (operation c = Some Div \<and> \<not> is_zero q \<and> isFinite (js_div p q) \<longrightarrow>
         compute c = (None, store (js_div p q) c)) \<and>
      (operation c = Some Mod \<and> \<not> is_zero q \<and> isFinite (js_rem p q) \<longrightarrow>
         compute c = (None, store (js_rem p q) c))"
    by (auto simp: compute_finish finish_def)
  show "currentOperand (store r c) =
     toString (js_div (math_round (js_mul (js_add r EPSILON) scale)) scale)"
    by (simp add: store_def round8_def)
  show "value_of EPSILON = 1 / 2 ^ 52" "value_of scale = 10 ^ 8"
    by (rule value_epsilon_scale)+
  show "0 \<le> m \<and> m < 2 ^ 53 \<longrightarrow>
      isFinite (math_round (Finite s m e)) \<and>
      value_of (math_round (Finite s m e)) = of_int \<lfloor>value_of (Finite s m e) + 1 / 2\<rfloor>"
    using math_round_value [of m s e] by blast
  show "compute \<lparr>currentOperand = ''0.2'', previousOperand = ''0.1'', operation = Some Add,
            shouldResetDisplay = False\<rparr> =
     (None, \<lparr>currentOperand = ''0.3'', previousOperand = '''', operation = None,
        shouldResetDisplay = True\<rparr>)"
    by (simp add: compute_def finish_def store_def Let_def sum_01_02)
  show "compute \<lparr>currentOperand = ''0'', previousOperand = ''4.001953125'', operation = Some Add,
            shouldResetDisplay = False\<rparr> =
     (None, \<lparr>currentOperand = ''4.00195313'', previousOperand = '''', operation = None,
        shouldResetDisplay = True\<rparr>)"
    by (simp add: compute_def finish_def store_def Let_def tie_operands tie_up
        del: js_add.simps)
  show "compute \<lparr>currentOperand = ''4.001953125'', previousOperand = ''0'', operation = Some Sub,
            shouldResetDisplay = False\<rparr> =
     (None, \<lparr>currentOperand = ''-4.00195312'', previousOperand = '''', operation = None,
        shouldResetDisplay = True\<rparr>)"
    by (simp add: compute_def finish_def store_def Let_def tie_operands tie_down
        operators_distinct)
qed

text \<open>
  The difference of 0 and 4.001953125, scaled, is the number of \<open>- 400195312.5\<close>, with or
  without \<^verbatim>\<open>Number.EPSILON\<close> added first. \<^verbatim>\<open>compute()\<close> stores \<^verbatim>\<open>"-4.00195312"\<close>; a
  tie going away from zero would give \<^verbatim>\<open>"-4.00195313"\<close>.
\<close>

theorem half_away_counterexample:
  "compute \<lparr>currentOperand = ''4.001953125'', previousOperand = ''0'', operation = Some Sub,
            shouldResetDisplay = False\<rparr> =
     (None, \<lparr>currentOperand = ''-4.00195312'', previousOperand = '''', operation = None,
        shouldResetDisplay = True\<rparr>) \<and>
   value_of (js_mul (js_sub (parseFloat ''0'') (parseFloat ''4.001953125'')) scale) =
     - 400195312 - 1 / 2 \<and>
   value_of (js_mul (js_add (js_sub (parseFloat ''0'') (parseFloat ''4.001953125'')) EPSILON)
     scale) = - 400195312 - 1 / 2 \<and>
   toString (round8 (js_sub (parseFloat ''0'') (parseFloat ''4.001953125''))) =
     ''-4.00195312'' \<and>
   toString (spec_round8 (js_sub (parseFloat ''0'') (parseFloat ''4.001953125''))) =
     ''-4.00195313'' \<and>
   toString (spec_round8 (js_add (js_sub (parseFloat ''0'') (parseFloat ''4.001953125''))
     EPSILON)) = ''-4.00195313''"
  by (simp add: compute_def finish_def store_def Let_def tie_operands tie_down signed_def
      operators_distinct)

theorem compute_rounds_half_up_witness:
  "compute \<lparr>currentOperand = ''0.2'', previousOperand = ''0.1'', operation = Some Add,
            shouldResetDisplay = False\<rparr> =
     (None, store (js_add (parseFloat ''0.1'') (parseFloat ''0.2''))
        \<lparr>currentOperand = ''0.2'', previousOperand = ''0.1'', operation = Some Add,
         shouldResetDisplay = False\<rparr>) \<and>
   value_of (math_round (Finite True 5 (- 1))) = - 2 \<and>
   value_of (math_round (Finite False 5 (- 1))) = 3"
  using
    compute_rounds_half_up [where p = "parseFloat ''0.1''" and q = "parseFloat ''0.2''"
      and c = "\<lparr>currentOperand = ''0.2'', previousOperand = ''0.1'', operation = Some Add,
         shouldResetDisplay = False\<rparr>" and m = 5 and s = True and e = "- 1"]
    compute_rounds_half_up [where m = 5 and s = False and e = "- 1"]
  by (simp add: sum_01_02 signed_def)

section \<open>Display\<close>

lemma split_without: "sep \<notin> set xs \<Longrightarrow> split sep xs = [xs]"
  by (induction xs) auto

lemma split_at_first: "sep \<notin> set xs \<Longrightarrow> split sep (xs @ sep # ys) = xs # split sep ys"
  by (induction xs) auto

lemma is_digit_cases:
  "is_digit c \<Longrightarrow> \<not> is_space c \<and> c \<noteq> CHR ''-'' \<and> c \<noteq> CHR ''+'' \<and> c \<noteq> CHR ''I'' \<and>
     c \<noteq> CHR ''.'' \<and> 0 \<le> digit_value c \<and> digit_value c \<le> 9"
  by (auto simp: is_digit_def digit_chars_def is_space_def digit_value_def)

lemma foldl_digits_nonneg:
  "list_all is_digit ds \<Longrightarrow> 0 \<le> a \<Longrightarrow> 0 \<le> foldl (\<lambda>a c. 10 * a + digit_value c) a ds"
proof (induction ds arbitrary: a)
  case Nil
  then show ?case by simp
next
  case (Cons d ds)
  from Cons.prems have "0 \<le> 10 * a + digit_value d"
    using is_digit_cases [of d] by simp
  with Cons show ?case by simp
qed

lemma digits_value_nonneg: "list_all is_digit ds \<Longrightarrow> 0 \<le> digits_value ds"
  unfolding digits_value_def by (rule foldl_digits_nonneg) simp_all

text \<open>A string of digits parses to the number nearest to the integer it writes.\<close>

lemma parseFloat_digits:
  assumes "list_all is_digit ds" and "ds \<noteq> []"
  shows "parseFloat ds = to_double False (digits_value ds) 1"
proof -
  from assms obtain d r where ds: "ds = d # r" and d: "is_digit d"
    by (cases ds) simp_all
  from assms(1) have all: "takeWhile is_digit ds = ds" "dropWhile is_digit ds = []"
    by (simp_all add: list_all_iff)
  have "dropWhile is_space ds = ds"
    using is_digit_cases [OF d] by (simp add: ds)
  moreover have "take 8 ds \<noteq> ''Infinity''"
    using is_digit_cases [OF d] by (auto simp: ds)
  moreover have "hd ds \<noteq> CHR ''-''" "hd ds \<noteq> CHR ''+''"
    using is_digit_cases [OF d] by (simp_all add: ds)
  ultimately show ?thesis
    using assms(2) by (simp add: parseFloat_def str_unsigned_def all Let_def of_decimal_def)
qed

lemma integer_digits_int:
  assumes "0 < v" and "v < 2 ^ 52"
  shows "toLocaleString (to_double False v 1) = group_thousands (digits v)"
proof -
  from width_bounds [OF assms(1)] have "2 ^ (width 2 v - 1) \<le> v" by simp
  with assms(2) have "(2 :: int) ^ (width 2 v - 1) < 2 ^ 52" by linarith
  then have "width 2 v - 1 < 52"
    by (rule power_less_imp_less_exp [rotated]) simp
  then have w: "width 2 v < 53" by simp
  define k where "k = 53 - width 2 v"
  have k: "nat (53 - int (width 2 v)) = k" "nat (54 - int (width 2 v)) = Suc k"
    "int (width 2 v) - 53 < 0"
    using w by (simp_all add: k_def)
  have "(2 * (v * 2 ^ k) + 2 ^ k) div (2 * 2 ^ k) = (2 ^ k * (2 * v + 1)) div (2 ^ k * 2)"
    by (simp add: algebra_simps)
  also have "\<dots> = (2 * v + 1) div 2"
    by (rule div_mult_mult1) simp
  also have "\<dots> = v" by simp
  finally have "(2 * (v * 2 ^ k) + 2 ^ k) div (2 * 2 ^ k) = v" .
  moreover have "v < 2 ^ 53" using assms(2) by simp
  ultimately show ?thesis
    using to_double_int [OF assms(1), of False] w
    by (simp add: integer_digits_def k flip: k_def)
qed

lemma integerDisplay_digits:
  assumes "list_all is_digit ds" and "ds \<noteq> []" and "digits_value ds < 2 ^ 52"
  shows "integerDisplay ds = group_thousands (digits (digits_value ds))"
proof (cases "digits_value ds = 0")
  case True
  have "to_double False 0 1 = Finite False 0 (- 1074)"
    by (simp add: to_double_def)
  moreover have "digits 0 = ''0''"
    by code_simp
  ultimately show ?thesis
    using True by (simp add: integerDisplay_def parseFloat_digits [OF assms(1,2)] integer_digits_def)
next
  case False
  with digits_value_nonneg [OF assms(1)] have pos: "0 < digits_value ds" by simp
  from pos assms(3) have "digits_value ds < 2 ^ 53" by simp
  from to_double_int [OF pos this, of False]
  have "\<not> isNaN (to_double False (digits_value ds) 1)" by simp
  then show ?thesis
    by (simp add: integerDisplay_def parseFloat_digits [OF assms(1,2)]
        integer_digits_int [OF pos assms(3)])
qed

text \<open>Grouping only inserts commas.\<close>

lemma group_thousands_commas:
  "filter (\<lambda>c. c \<noteq> CHR '','') (group_thousands ds) = filter (\<lambda>c. c \<noteq> CHR '','') ds"
proof (induction ds rule: group_thousands.induct)
  case (1 ds)
  show ?case
  proof (cases "length ds \<le> 3")
    case True
    then show ?thesis by (subst group_thousands.simps) simp
  next
    case False
    have "filter (\<lambda>c. c \<noteq> CHR '','') (take (length ds - 3) ds) @
        filter (\<lambda>c. c \<noteq> CHR '','') (drop (length ds - 3) ds) = filter (\<lambda>c. c \<noteq> CHR '','') ds"
      by (simp flip: filter_append)
    with False 1 show ?thesis by (subst group_thousands.simps) simp
  qed
qed

lemma display_example:
  "group_thousands ''1234567'' = ''1,234,567''"
  "getDisplayNumber ''1234567.123456789'' = ''1,234,567.12345678''"
  by code_simp+

text \<open>
  Claim C9. \<^verbatim>\<open>getDisplayNumber\<close> is a function of its argument alone. The empty string
  gives the empty string. A string without a point gives the display of its integer
  part; a string \<open>i\<close>, point, \<open>f\<close> gives the display of \<open>i\<close>, a point and the first eight
  characters of \<open>f\<close>. The display of an integer part made of digits, of a value below
  \<open>2 ^ 52\<close>, is the numeral of that value with a comma before every group of three
  digits counted from the right; grouping only inserts commas. In particular
  \<^verbatim>\<open>"1234567.123456789"\<close> gives \<^verbatim>\<open>"1,234,567.12345678"\<close>.
\<close>

theorem getDisplayNumber_format:
  "getDisplayNumber '''' = '''' \<and>
   (CHR ''.'' \<notin> set i \<and> i \<noteq> '''' \<longrightarrow> getDisplayNumber i = integerDisplay i) \<and>
   (CHR ''.'' \<notin> set i \<and> CHR ''.'' \<notin> set f \<longrightarrow>
      getDisplayNumber (i @ ''.'' @ f) = integerDisplay i @ ''.'' @ take 8 f) \<and>
   (list_all is_digit i \<and> i \<noteq> '''' \<and> digits_value i < 2 ^ 52 \<longrightarrow>
      integerDisplay i = group_thousands (digits (digits_value i))) \<and>
   filter (\<lambda>c. c \<noteq> CHR '','') (group_thousands ds) = filter (\<lambda>c. c \<noteq> CHR '','') ds \<and>
   group_thousands ''1234567'' = ''1,234,567'' \<and>
   getDisplayNumber ''1234567.123456789'' = ''1,234,567.12345678''"
proof (intro conjI)
  show "getDisplayNumber '''' = ''''"
    by (simp add: getDisplayNumber_def)
  show "CHR ''.'' \<notin> set i \<and> i \<noteq> '''' \<longrightarrow> getDisplayNumber i = integerDisplay i"
    by (simp add: getDisplayNumber_def split_without)
  show "CHR ''.'' \<notin> set i \<and> CHR ''.'' \<notin> set f \<longrightarrow>
      getDisplayNumber (i @ ''.'' @ f) = integerDisplay i @ ''.'' @ take 8 f"
    by (simp add: getDisplayNumber_def split_at_first split_without)
  show "list_all is_digit i \<and> i \<noteq> '''' \<and> digits_value i < 2 ^ 52 \<longrightarrow>
      integerDisplay i = group_thousands (digits (digits_value i))"
    using integerDisplay_digits [of i] by blast
  show "filter (\<lambda>c. c \<noteq> CHR '','') (group_thousands ds) = filter (\<lambda>c. c \<noteq> CHR '','') ds"
    by (rule group_thousands_commas)
  show "group_thousands ''1234567'' = ''1,234,567''"
    "getDisplayNumber ''1234567.123456789'' = ''1,234,567.12345678''"
    by (rule display_example)+
qed

theorem getDisplayNumber_format_witness:
  "getDisplayNumber (''1234567'' @ ''.'' @ ''123456789'') =
     integerDisplay ''1234567'' @ ''.'' @ ''12345678'' \<and>
   integerDisplay ''1234567'' = group_thousands (digits 1234567) \<and>
   getDisplayNumber ''42'' = integerDisplay ''42''"
  using getDisplayNumber_format [where i = "''1234567''" and f = "''123456789''"]
    getDisplayNumber_format [where i = "''42''"]
  by (simp add: is_digit_def digit_chars_def digits_value_def digit_value_def)

section \<open>Reachable states\<close>

lemma reachable_handle: "reachable c \<Longrightarrow> valid_input ev \<Longrightarrow> reachable (handle ev c)"
  by (cases ev) (simp_all add: reachable.intros)

lemma reachable_run: "reachable c \<Longrightarrow> list_all valid_input evs \<Longrightarrow> reachable (run evs c)"
  unfolding run_def
  by (induction evs arbitrary: c) (simp_all add: reachable_handle)

text \<open>\<^verbatim>\<open>compute()\<close> leaves the state as it was or stores the string of a number.\<close>

lemma compute_cases:
  assumes "P c"
    and "\<And>x. P (c\<lparr>currentOperand := toString x, operation := None, previousOperand := '''',
        shouldResetDisplay := True\<rparr>)"
  shows "P (snd (compute c))"
  by (simp add: compute_def finish_def store_def Let_def assms)

lemma chooseOperation_cases:
  assumes "P c"
    and "currentOperand c = '''' \<Longrightarrow> previousOperand c \<noteq> '''' \<Longrightarrow>
      P (c\<lparr>operation := Some op\<rparr>)"
    and "\<And>d. d = c \<or> d = snd (compute c) \<Longrightarrow>
      P (d\<lparr>operation := Some op, previousOperand := currentOperand d, currentOperand := '''',
          shouldResetDisplay := False\<rparr>)"
  shows "P (snd (chooseOperation op c))"
  by (simp add: chooseOperation_def assms split: prod.split)

subsection \<open>Three sequences of inputs\<close>

text \<open>
  Twelve nines, plus, one, equals: \<^verbatim>\<open>compute()\<close> stores the thirteen characters of
  1000000000000. Eleven nines instead give the twelve characters of 100000000000 with
  the flag set, and a digit typed then replaces them.
\<close>

definition twelve_nines_plus_one :: "input list" where
  "twelve_nines_plus_one =
     [NumberInput ''9'', NumberInput ''9'', NumberInput ''9'', NumberInput ''9'',
      NumberInput ''9'', NumberInput ''9'', NumberInput ''9'', NumberInput ''9'',
      NumberInput ''9'', NumberInput ''9'', NumberInput ''9'', NumberInput ''9'',
      OperatorInput Add, NumberInput ''1'', EqualsInput]"

lemma run_twelve_nines_plus_one:
  "run twelve_nines_plus_one initial =
     \<lparr>currentOperand = ''1000000000000'', previousOperand = '''', operation = None,
      shouldResetDisplay = True\<rparr>"
  by code_simp

lemma run_eleven_nines_plus_one:
  "run (tl twelve_nines_plus_one) initial =
     \<lparr>currentOperand = ''100000000000'', previousOperand = '''', operation = None,
      shouldResetDisplay = True\<rparr>"
  by code_simp

lemma valid_twelve_nines_plus_one: "list_all valid_input twelve_nines_plus_one"
  by (simp add: twelve_nines_plus_one_def number_token_def is_digit_def digit_chars_def)

text \<open>
  One, point, five, plus, one, equals: the result \<^verbatim>\<open>"2.5"\<close> holds a point and the flag
  is set, and the point pressed then starts a new operand. After twelve digits the point
  pressed twice leaves no point.
\<close>

definition one_and_a_half_plus_one :: "input list" where
  "one_and_a_half_plus_one =
     [NumberInput ''1'', NumberInput ''.'', NumberInput ''5'', OperatorInput Add,
      NumberInput ''1'', EqualsInput]"

lemma run_one_and_a_half_plus_one:
  "run one_and_a_half_plus_one initial =
     \<lparr>currentOperand = ''2.5'', previousOperand = '''', operation = None,
      shouldResetDisplay = True\<rparr>"
  by code_simp

lemma valid_one_and_a_half_plus_one: "list_all valid_input one_and_a_half_plus_one"
  by (simp add: one_and_a_half_plus_one_def number_token_def is_digit_def digit_chars_def)

definition twelve_ones :: "input list" where
  "twelve_ones = replicate 12 (NumberInput ''1'')"

lemma run_twelve_ones:
  "run twelve_ones initial =
     \<lparr>currentOperand = ''111111111111'', previousOperand = '''', operation = None,
      shouldResetDisplay = False\<rparr>"
  by code_simp

lemma valid_twelve_ones: "list_all valid_input twelve_ones"
  by (simp add: twelve_ones_def number_token_def is_digit_def digit_chars_def list_all_length)

subsection \<open>Invariants\<close>

text \<open>
  Claim C10. In every reachable state with \<^verbatim>\<open>shouldResetDisplay\<close> set,
  \<^verbatim>\<open>previousOperand\<close> is empty, \<^verbatim>\<open>operation\<close> is undefined and
  \<^verbatim>\<open>currentOperand\<close> is not empty.
\<close>

theorem reset_flag_means_result:
  "reachable c \<Longrightarrow> shouldResetDisplay c \<Longrightarrow>
   previousOperand c = '''' \<and> operation c = None \<and> currentOperand c \<noteq> ''''"
proof (induction rule: reachable.induct)
  case start
  then show ?case by (simp add: initial_def)
next
  case (number c key)
  then show ?case by (simp add: appendNumber_def Let_def split: if_splits)
next
  case (operator c op)
  show ?case
    using operator.prems
  proof (induction rule: chooseOperation_cases)
    case 1
    then show ?case by (rule operator.IH)
  next
    case 2
    then show ?case using operator.IH by simp
  next
    case (3 d)
    then show ?case by simp
  qed
next
  case (equals c)
  show ?case
    using equals.prems
  proof (induction rule: compute_cases)
    case 1
    then show ?case by (rule equals.IH)
  next
    case (2 x)
    then show ?case by (simp add: toString_not_empty)
  qed
next
  case (clear c)
  then show ?case by (simp add: clear_def)
next
  case (delete c)
  then show ?case by (simp add: delete_def clear_def split: if_splits)
qed


theorem reset_flag_means_result_witness:
  "shouldResetDisplay (run one_and_a_half_plus_one initial) \<and>
   previousOperand (run one_and_a_half_plus_one initial) = '''' \<and>
   operation (run one_and_a_half_plus_one initial) = None \<and>
   currentOperand (run one_and_a_half_plus_one initial) = ''2.5''"
proof -
  have "reachable (run one_and_a_half_plus_one initial)"
    by (rule reachable_run [OF reachable.start valid_one_and_a_half_plus_one])
  then show ?thesis
    using reset_flag_means_result [of "run one_and_a_half_plus_one initial"]
    by (simp add: run_one_and_a_half_plus_one)
qed

lemma number_token_length: "number_token key \<Longrightarrow> length key = 1"
  by (simp add: number_token_def)

lemma number_token_points: "number_token key \<Longrightarrow> count_list key (CHR ''.'') = (if key = ''.'' then 1 else 0)"
  by (cases key) (auto simp: number_token_def is_digit_def digit_chars_def)

text \<open>
  Claim C5, as the code has it. \<^verbatim>\<open>compute()\<close> stores the string of its result whatever
  its length, and sets \<^verbatim>\<open>shouldResetDisplay\<close>. So in every reachable state
  \<^verbatim>\<open>currentOperand\<close> has at most \<^verbatim>\<open>maxDigits\<close> characters or
  \<^verbatim>\<open>shouldResetDisplay\<close> is set; and \<^verbatim>\<open>appendNumber\<close> changes nothing when
  \<^verbatim>\<open>currentOperand\<close> has \<^verbatim>\<open>maxDigits\<close> characters and the flag is not set.
\<close>

theorem typed_operand_length:
  "reachable c \<Longrightarrow>
   (shouldResetDisplay c \<or> length (currentOperand c) \<le> maxDigits) \<and>
   (\<not> shouldResetDisplay c \<and> length (currentOperand c) = maxDigits \<longrightarrow>
      appendNumber key c = c)"
proof
  show "\<not> shouldResetDisplay c \<and> length (currentOperand c) = maxDigits \<longrightarrow>
      appendNumber key c = c"
    by (simp add: appendNumber_def)
  show "shouldResetDisplay c \<or> length (currentOperand c) \<le> maxDigits" if "reachable c"
    using that
  proof (induction rule: reachable.induct)
    case start
    show ?case by (simp add: initial_def)
  next
    case (number c key)
    then show ?case
      by (auto simp: appendNumber_def Let_def maxDigits_def dest: number_token_length)
  next
    case (operator c op)
    show ?case
      by (induction rule: chooseOperation_cases) (simp_all add: operator.IH)
  next
    case (equals c)
    show ?case
      by (induction rule: compute_cases) (simp_all add: equals.IH)
  next
    case (clear c)
    show ?case by (simp add: clear_def)
  next
    case (delete c)
    then show ?case by (auto simp: delete_def clear_def)
  qed
qed


theorem operand_length_counterexample:
  "reachable (run twelve_nines_plus_one initial) \<and>
   length (currentOperand (run twelve_nines_plus_one initial)) = 13 \<and>
   maxDigits = 12 \<and>
   reachable (run (tl twelve_nines_plus_one) initial) \<and>
   length (currentOperand (run (tl twelve_nines_plus_one) initial)) = maxDigits \<and>
   appendNumber ''5'' (run (tl twelve_nines_plus_one) initial) \<noteq>
     run (tl twelve_nines_plus_one) initial"
proof -
  have "list_all valid_input (tl twelve_nines_plus_one)"
    using valid_twelve_nines_plus_one by (simp add: twelve_nines_plus_one_def)
  then have "reachable (run (tl twelve_nines_plus_one) initial)"
    by (rule reachable_run [OF reachable.start])
  moreover have "reachable (run twelve_nines_plus_one initial)"
    by (rule reachable_run [OF reachable.start valid_twelve_nines_plus_one])
  ultimately show ?thesis
    by (simp add: run_twelve_nines_plus_one run_eleven_nines_plus_one maxDigits_def
        appendNumber_def)
qed

theorem typed_operand_length_witness:
  "shouldResetDisplay (run twelve_nines_plus_one initial) \<and>
   length (currentOperand (run [NumberInput ''7''] initial)) \<le> maxDigits \<and>
   appendNumber ''5'' (run (take 12 twelve_nines_plus_one) initial) =
     run (take 12 twelve_nines_plus_one) initial"
proof -
  have seven: "run [NumberInput ''7''] initial =
      \<lparr>currentOperand = ''7'', previousOperand = '''', operation = None,
       shouldResetDisplay = False\<rparr>"
    by (simp add: run_def appendNumber_def initial_def maxDigits_def)
  have nines: "run (take 12 twelve_nines_plus_one) initial =
      \<lparr>currentOperand = ''999999999999'', previousOperand = '''', operation = None,
       shouldResetDisplay = False\<rparr>"
    by (simp add: twelve_nines_plus_one_def run_def appendNumber_def initial_def maxDigits_def)
  have "reachable (run twelve_nines_plus_one initial)"
    by (rule reachable_run [OF reachable.start valid_twelve_nines_plus_one])
  moreover have "reachable (run [NumberInput ''7''] initial)"
    by (rule reachable_run [OF reachable.start])
      (simp add: number_token_def is_digit_def digit_chars_def)
  moreover have "reachable (run (take 12 twelve_nines_plus_one) initial)"
    by (rule reachable_run [OF reachable.start])
      (simp add: twelve_nines_plus_one_def number_token_def is_digit_def digit_chars_def)
  ultimately show ?thesis
    using typed_operand_length [of "run twelve_nines_plus_one initial" "''5''"]
      typed_operand_length [of "run [NumberInput ''7''] initial" "''5''"]
      typed_operand_length [of "run (take 12 twelve_nines_plus_one) initial" "''5''"]
    by (simp add: run_twelve_nines_plus_one seven nines maxDigits_def)
qed

text \<open>
  Claim C6, as the code has it. In every reachable state \<^verbatim>\<open>currentOperand\<close> holds at
  most one point. \<^verbatim>\<open>appendNumber('.')\<close> changes nothing when \<^verbatim>\<open>currentOperand\<close>
  holds a point and \<^verbatim>\<open>shouldResetDisplay\<close> is not set. After the point is pressed twice
  \<^verbatim>\<open>currentOperand\<close> holds at most one point, and exactly one if the flag was set, or a
  point was there, or fewer than \<^verbatim>\<open>maxDigits\<close> characters were.
\<close>

theorem decimal_point_once:
  "reachable c \<Longrightarrow>
   count_list (currentOperand c) (CHR ''.'') \<le> 1 \<and>
   (\<not> shouldResetDisplay c \<and> CHR ''.'' \<in> set (currentOperand c) \<longrightarrow>
      appendNumber ''.'' c = c) \<and>
   count_list (currentOperand (appendNumber ''.'' (appendNumber ''.'' c))) (CHR ''.'') \<le> 1 \<and>
   (shouldResetDisplay c \<or> CHR ''.'' \<in> set (currentOperand c) \<or>
    length (currentOperand c) < maxDigits \<longrightarrow>
      count_list (currentOperand (appendNumber ''.'' (appendNumber ''.'' c))) (CHR ''.'') = 1)"
proof -
  assume "reachable c"
  then have "count_list (currentOperand c) (CHR ''.'') < 2"
  proof (induction rule: reachable.induct)
    case start
    show ?case by (simp add: initial_def)
  next
    case (number c key)
    then show ?case
      by (auto simp: appendNumber_def Let_def number_token_points count_list_0_iff)
  next
    case (operator c op)
    show ?case
      by (induction rule: chooseOperation_cases) (simp_all add: operator.IH)
  next
    case (equals c)
    have "count_list (toString x) (CHR ''.'') < 2" for x
      using toString_points [of x] by simp
    then show ?case
      by (induction rule: compute_cases) (simp_all add: equals.IH)
  next
    case (clear c)
    show ?case by (simp add: clear_def)
  next
    case (delete c)
    have "count_list (butlast xs) (CHR ''.'') \<le> count_list xs (CHR ''.'')" for xs
      by (induction xs) simp_all
    from this [of "currentOperand c"] delete.IH show ?case
      by (simp add: delete_def clear_def)
  qed
  then have one: "count_list (currentOperand c) (CHR ''.'') \<le> 1"
    by simp
  have member: "CHR ''.'' \<in> set (currentOperand c) \<Longrightarrow> count_list (currentOperand c) (CHR ''.'') = 1"
    using one count_list_0_iff [of "currentOperand c" "CHR ''.''"] by simp
  have absent: "CHR ''.'' \<notin> set (currentOperand c) \<Longrightarrow> count_list (currentOperand c) (CHR ''.'') = 0"
    by simp
  show ?thesis
    using one member absent
    by (auto simp: appendNumber_def Let_def maxDigits_def)
qed


theorem decimal_point_counterexample:
  "reachable (run one_and_a_half_plus_one initial) \<and>
   CHR ''.'' \<in> set (currentOperand (run one_and_a_half_plus_one initial)) \<and>
   appendNumber ''.'' (run one_and_a_half_plus_one initial) \<noteq>
     run one_and_a_half_plus_one initial \<and>
   reachable (run twelve_ones initial) \<and>
   count_list
     (currentOperand (appendNumber ''.'' (appendNumber ''.'' (run twelve_ones initial))))
     (CHR ''.'') = 0"
proof -
  have "reachable (run one_and_a_half_plus_one initial)"
    by (rule reachable_run [OF reachable.start valid_one_and_a_half_plus_one])
  moreover have "reachable (run twelve_ones initial)"
    by (rule reachable_run [OF reachable.start valid_twelve_ones])
  ultimately show ?thesis
    by (simp add: run_one_and_a_half_plus_one run_twelve_ones appendNumber_def maxDigits_def)
qed

theorem decimal_point_once_witness:
  "count_list (currentOperand (run [NumberInput ''1'', NumberInput ''.''] initial)) (CHR ''.'') = 1 \<and>
   appendNumber ''.'' (run [NumberInput ''1'', NumberInput ''.''] initial) =
     run [NumberInput ''1'', NumberInput ''.''] initial \<and>
   currentOperand
     (appendNumber ''.'' (appendNumber ''.'' (run one_and_a_half_plus_one initial))) = ''.''"
proof -
  have point: "run [NumberInput ''1'', NumberInput ''.''] initial =
      \<lparr>currentOperand = ''1.'', previousOperand = '''', operation = None,
       shouldResetDisplay = False\<rparr>"
    by (simp add: run_def appendNumber_def initial_def maxDigits_def)
  have "reachable (run [NumberInput ''1'', NumberInput ''.''] initial)"
    by (rule reachable_run [OF reachable.start])
      (simp add: number_token_def is_digit_def digit_chars_def)
  moreover have "reachable (run one_and_a_half_plus_one initial)"
    by (rule reachable_run [OF reachable.start valid_one_and_a_half_plus_one])
  ultimately show ?thesis
    using decimal_point_once [of "run [NumberInput ''1'', NumberInput ''.''] initial"]
      decimal_point_once [of "run one_and_a_half_plus_one initial"]
    by (simp add: point run_one_and_a_half_plus_one appendNumber_def maxDigits_def)
qed

end
